theory Spec2Isabelle
  imports Complex_Main "HOL-Library.Word" "HOL-Library.AList"
begin

section \<open>JavaScript values\<close>

text \<open>
  A JavaScript string is a sequence of UTF-16 code units; \<open>length\<close> counts code units,
  and a regular expression without the \<open>u\<close> flag matches code units.
\<close>

type_synonym code_unit = "16 word"
type_synonym jsstring = "code_unit list"

text \<open>
  A JavaScript number is a double: a finite value, one of the two infinities, or NaN.
  The code only compares numbers and tests them for NaN, so a finite double is modelled
  by the real number it denotes (the two zeros are identified: no operation of the
  module tells them apart).
\<close>

datatype jsnum = NaN | NegInf | Fin real | PosInf

text \<open>
  A value of type \<open>any\<close>: \<open>undefined\<close>, \<open>null\<close>, a boolean, a number, a string,
  or an object (an array, a record, a date) as an opaque reference. Symbols and big
  integers are left out.
\<close>

datatype jsval =
    JUndefined
  | JNull
  | JBool bool
  | JNum jsnum
  | JStr jsstring
  | JObj nat

text \<open>Truthiness: what \<open>if (v)\<close>, \<open>!v\<close> and \<open>v || w\<close> test.\<close>

definition truthy :: "jsval \<Rightarrow> bool" where
  "truthy v =
     (case v of
        JUndefined \<Rightarrow> False
      | JNull \<Rightarrow> False
      | JBool b \<Rightarrow> b
      | JNum n \<Rightarrow> n \<noteq> Fin 0 \<and> n \<noteq> NaN
      | JStr s \<Rightarrow> s \<noteq> []
      | JObj r \<Rightarrow> True)"

text \<open>Anything can be thrown; a computation that may throw returns \<open>exc + 'a\<close>.\<close>

type_synonym exc = jsval

definition try_catch :: "exc + 'a \<Rightarrow> (exc \<Rightarrow> exc + 'a) \<Rightarrow> exc + 'a" where
  "try_catch body handler = (case body of Inl e \<Rightarrow> handler e | Inr x \<Rightarrow> Inr x)"

text \<open>
  A plain object used as a dictionary (\<open>Record<string, T>\<close>): its own properties in
  insertion order. Assignment keeps the position of an existing key and appends a new
  one (\<open>AList.update\<close>); \<open>delete\<close> removes the key (\<open>AList.delete\<close>).
  In the reads and writes of the form engine, field names are taken not to be integer-like
  keys or members of \<open>Object.prototype\<close>; the reads of the field binding are modelled
  with what the object inherits.
\<close>

type_synonym 'v obj = "(jsstring \<times> 'v) list"

definition obj_keys :: "'v obj \<Rightarrow> jsstring list" where
  "obj_keys ob = map fst ob"

definition obj_get :: "'v obj \<Rightarrow> jsstring \<Rightarrow> 'v option" where
  "obj_get ob k = map_of ob k"

definition obj_set :: "jsstring \<Rightarrow> 'v \<Rightarrow> 'v obj \<Rightarrow> 'v obj" where
  "obj_set k v ob = AList.update k v ob"

definition obj_delete :: "jsstring \<Rightarrow> 'v obj \<Rightarrow> 'v obj" where
  "obj_delete k ob = AList.delete k ob"

text \<open>\<open>ob[k]\<close> on an object of values: \<open>undefined\<close> when the key is absent.\<close>

definition obj_read :: "jsval obj \<Rightarrow> jsstring \<Rightarrow> jsval" where
  "obj_read ob k = (case obj_get ob k of None \<Rightarrow> JUndefined | Some v \<Rightarrow> v)"

text \<open>\<open>Object.assign(target, source)\<close>: every property of the source, in order.\<close>

definition object_assign :: "'v obj \<Rightarrow> 'v obj \<Rightarrow> 'v obj" where
  "object_assign target source = fold (\<lambda>(k, v) acc. obj_set k v acc) source target"

text \<open>\<open>Object.keys(ob).forEach(key => delete ob[key])\<close>.\<close>

definition delete_all_keys :: "'v obj \<Rightarrow> 'v obj" where
  "delete_all_keys ob = fold obj_delete (obj_keys ob) ob"


section \<open>Rules (the types module)\<close>

datatype rule_trigger = Blur | Change | Input

text \<open>
  A validator returns a value, or a promise of one; the caller awaits it, so its outcome
  is the value returned or resolved (\<open>Inr\<close>) or the value thrown or rejected (\<open>Inl\<close>).
\<close>

record FormRule =
  required :: "bool option"
  message :: "jsstring option"
  validator :: "(jsval \<Rightarrow> exc + jsval) option"
  trigger :: "rule_trigger option"

text \<open>\<open>FormRules = Record<string, FormRule | FormRule[]>\<close>.\<close>

datatype rule_entry = Single FormRule | Many "FormRule list"

type_synonym FormRules = "rule_entry obj"


section \<open>The form engine (useForm.ts)\<close>

text \<open>The interface \<open>FormState\<close>: the snapshot that \<open>formState\<close> computes.\<close>

record FormState =
  "values" :: "jsval obj"
  errors :: "jsstring obj"
  touched :: "bool obj"
  dirty :: "bool obj"
  valid :: bool
  submitting :: bool

text \<open>
  The reactive variables that the closures of \<open>useForm\<close> share. There is no variable
  for \<open>valid\<close>: it is a computed value.
\<close>

record form =
  "values" :: "jsval obj"
  errors :: "jsstring obj"
  touched :: "bool obj"
  dirty :: "bool obj"
  submitting :: bool

text \<open>The constructor: \<open>values\<close> is a shallow copy of \<open>initialValues\<close>.\<close>

definition useForm :: "jsval obj \<Rightarrow> form" where
  "useForm initialValues =
     \<lparr> values = object_assign [] initialValues, errors = [], touched = [], dirty = [],
       submitting = False \<rparr>"

definition valid :: "form \<Rightarrow> bool" where
  "valid s = (length (obj_keys (errors s)) = 0)"

definition formState :: "form \<Rightarrow> FormState" where
  "formState s =
     \<lparr> FormState.values = values s, FormState.errors = errors s,
       FormState.touched = touched s, FormState.dirty = dirty s,
       FormState.valid = valid s, FormState.submitting = submitting s \<rparr>"

text \<open>The two default messages of \<open>validateRule\<close>, as code units.\<close>

definition default_required_message :: jsstring where
  "default_required_message = [0x6B64, 0x5B57, 0x6BB5, 0x4E3A, 0x5FC5, 0x586B, 0x9879]"

definition default_failed_message :: jsstring where
  "default_failed_message = [0x9A8C, 0x8BC1, 0x5931, 0x8D25]"

text \<open>\<open>rule.message || dflt\<close>: a missing message and the empty string are falsy.\<close>

definition message_or :: "FormRule \<Rightarrow> jsstring \<Rightarrow> jsstring" where
  "message_or rule dflt =
     (case message rule of
        None \<Rightarrow> dflt
      | Some m \<Rightarrow> if m \<noteq> [] then m else dflt)"

text \<open>The result of \<open>validateRule\<close>, of type \<open>string | true\<close>.\<close>

datatype rule_result = Pass | Fail jsstring

definition is_absent :: "jsval \<Rightarrow> bool" where
  "is_absent v = (v = JUndefined \<or> v = JNull \<or> v = JStr [])"

definition validateRule :: "jsval \<Rightarrow> FormRule \<Rightarrow> exc + rule_result" where
  "validateRule v rule =
     (if required rule = Some True \<and> is_absent v
      then Inr (Fail (message_or rule default_required_message))
      else
        (case validator rule of
           Some f \<Rightarrow>
             try_catch
               (case f v of
                  Inl thrown \<Rightarrow> Inl thrown
                | Inr result \<Rightarrow>
                    if result = JBool True then Inr Pass
                    else Inr (case result of
                                JStr str \<Rightarrow> Fail str
                              | _ \<Rightarrow> Fail (message_or rule default_failed_message)))
               (\<lambda>error. Inr (Fail (message_or rule default_failed_message)))
         | None \<Rightarrow> Inr Pass))"

text \<open>\<open>Array.isArray(rule) ? rule : [rule]\<close>.\<close>

definition fieldRules :: "rule_entry \<Rightarrow> FormRule list" where
  "fieldRules rule = (case rule of Many rs \<Rightarrow> rs | Single r \<Rightarrow> [r])"

text \<open>
  The loop of \<open>validateField\<close> over the rules of one field, and what follows it. A
  rejection of \<open>validateRule\<close> would leave the loop through the \<open>await\<close>.
\<close>

fun validateField_loop ::
  "jsstring \<Rightarrow> jsval \<Rightarrow> FormRule list \<Rightarrow> form \<Rightarrow> (exc + bool) \<times> form" where
  "validateField_loop name v [] s = (Inr True, s\<lparr>errors := obj_delete name (errors s)\<rparr>)"
| "validateField_loop name v (fieldRule # rest) s =
     (case validateRule v fieldRule of
        Inl thrown \<Rightarrow> (Inl thrown, s)
      | Inr (Fail result) \<Rightarrow> (Inr False, s\<lparr>errors := obj_set name result (errors s)\<rparr>)
      | Inr Pass \<Rightarrow> validateField_loop name v rest s)"

definition validateField ::
  "FormRules option \<Rightarrow> jsstring \<Rightarrow> form \<Rightarrow> (exc + bool) \<times> form" where
  "validateField rules name s =
     (case (case rules of None \<Rightarrow> None | Some rs \<Rightarrow> obj_get rs name) of
        None \<Rightarrow> (Inr True, s)
      | Some rule \<Rightarrow> validateField_loop name (obj_read (values s) name) (fieldRules rule) s)"

text \<open>
  \<open>validate\<close> starts \<open>validateField\<close> for every key of the rules, in the order of
  \<open>Object.keys\<close>, and awaits them jointly. Every call reads its value when it starts and
  writes the error of its own field only, and nothing else runs meanwhile, so the calls
  are run one after the other here. \<open>Promise.all\<close> rejects when one of them does.
\<close>

fun validate_dispatch ::
  "FormRules option \<Rightarrow> jsstring list \<Rightarrow> form \<Rightarrow> (exc + bool) list \<times> form" where
  "validate_dispatch rules [] s = ([], s)"
| "validate_dispatch rules (name # names) s =
     (case validateField rules name s of
        (r, s1) \<Rightarrow> (case validate_dispatch rules names s1 of (rs, s2) \<Rightarrow> (r # rs, s2)))"

fun promise_all :: "(exc + 'a) list \<Rightarrow> exc + 'a list" where
  "promise_all [] = Inr []"
| "promise_all (Inl thrown # rest) = Inl thrown"
| "promise_all (Inr x # rest) =
     (case promise_all rest of Inl thrown \<Rightarrow> Inl thrown | Inr xs \<Rightarrow> Inr (x # xs))"

definition validate :: "FormRules option \<Rightarrow> form \<Rightarrow> (exc + bool) \<times> form" where
  "validate rules s =
     (case rules of
        None \<Rightarrow> (Inr True, s)
      | Some rs \<Rightarrow>
          (case validate_dispatch rules (obj_keys rs) s of
             (validationPromises, s') \<Rightarrow>
               (case promise_all validationPromises of
                  Inl thrown \<Rightarrow> (Inl thrown, s')
                | Inr results \<Rightarrow> (Inr (list_all (\<lambda>result. result) results), s'))))"

text \<open>
  \<open>setFieldValue\<close> does not await the validation it starts: the result is dropped,
  and the validation is run to its end before the next call here.
\<close>

definition setFieldValue :: "FormRules option \<Rightarrow> jsstring \<Rightarrow> jsval \<Rightarrow> form \<Rightarrow> form" where
  "setFieldValue rules name v s =
     (let s1 = s\<lparr>values := obj_set name v (values s), dirty := obj_set name True (dirty s)\<rparr>
      in if obj_get (touched s1) name = Some True
         then snd (validateField rules name s1)
         else s1)"

definition setFieldError :: "jsstring \<Rightarrow> jsstring \<Rightarrow> form \<Rightarrow> form" where
  "setFieldError name error s = s\<lparr>errors := obj_set name error (errors s)\<rparr>"

definition clearFieldError :: "jsstring \<Rightarrow> form \<Rightarrow> form" where
  "clearFieldError name s = s\<lparr>errors := obj_delete name (errors s)\<rparr>"

definition touchField :: "jsstring \<Rightarrow> form \<Rightarrow> form" where
  "touchField name s = s\<lparr>touched := obj_set name True (touched s)\<rparr>"

text \<open>
  \<open>reset\<close> reads \<open>initialValues\<close>, the object given to the constructor, as it is
  when \<open>reset\<close> runs: the constructor keeps no copy of it, and an object among the
  values is the same object in both.
\<close>

definition reset :: "jsval obj \<Rightarrow> form \<Rightarrow> form" where
  "reset initialValues s =
     s\<lparr> values := object_assign (values s) initialValues,
        errors := delete_all_keys (errors s),
        touched := delete_all_keys (touched s),
        dirty := delete_all_keys (dirty s),
        submitting := False \<rparr>"

text \<open>\<open>try { body } finally { fin }\<close> where the finally block cannot throw.\<close>

definition try_finally ::
  "(form \<Rightarrow> (exc + 'a) \<times> form) \<Rightarrow> (form \<Rightarrow> form) \<Rightarrow> form \<Rightarrow> (exc + 'a) \<times> form" where
  "try_finally body fin s = (case body s of (completion, s') \<Rightarrow> (completion, fin s'))"

text \<open>
  \<open>submit\<close>. The callback receives the values and closes over whatever it likes, the
  handle of the form included: it is a computation on the form that returns or throws.
\<close>

definition submit ::
  "FormRules option \<Rightarrow> (form \<Rightarrow> (exc + unit) \<times> form) \<Rightarrow> form \<Rightarrow> (exc + unit) \<times> form" where
  "submit rules onSubmit s =
     try_finally
       (\<lambda>s1. case validate rules s1 of
                (Inl thrown, s2) \<Rightarrow> (Inl thrown, s2)
              | (Inr isValid, s2) \<Rightarrow> if isValid then onSubmit s2 else (Inr (), s2))
       (\<lambda>s3. s3\<lparr>submitting := False\<rparr>)
       (s\<lparr>submitting := True\<rparr>)"

text \<open>
  The callback of the deep watcher on \<open>values\<close>. \<open>a !== b\<close> holds of two different
  values and of NaN with itself. An object is compared by reference, which leaves out
  that the reactive \<open>values\<close> hands out a proxy of a nested object; nothing below
  rests on the watcher.
\<close>

definition strict_neq :: "jsval \<Rightarrow> jsval \<Rightarrow> bool" where
  "strict_neq a b = (a \<noteq> b \<or> a = JNum NaN)"

definition watch_callback :: "jsval obj \<Rightarrow> form \<Rightarrow> form" where
  "watch_callback initialValues s =
     s\<lparr>dirty :=
         fold (\<lambda>key d. if strict_neq (obj_read (values s) key) (obj_read initialValues key)
                        then obj_set key True d else d)
              (obj_keys (values s)) (dirty s)\<rparr>"

text \<open>
  The calls a user of the handle makes, each run to its end before the next. The callback
  of a \<open>Submit\<close> receives the reactive \<open>values\<close> itself: it returns or throws, and
  leaves \<open>values\<close> as it likes (entries added, changed or deleted). \<open>WatcherRuns\<close>
  is the scheduler running the watcher's callback. \<open>CallerWrites\<close> is the caller
  writing a field of the object it gave as \<open>initialValues\<close>, which \<open>reset\<close> and the
  watcher read again: a run carries that object beside the state of the form.
\<close>

datatype call =
    SetFieldValue jsstring jsval
  | SetFieldError jsstring jsstring
  | ClearFieldError jsstring
  | TouchField jsstring
  | ValidateField jsstring
  | Validate
  | Reset
  | Submit "jsval obj \<Rightarrow> (exc + unit) \<times> jsval obj"
  | WatcherRuns
  | CallerWrites jsstring jsval

fun exec :: "FormRules option \<Rightarrow> call \<Rightarrow> jsval obj \<times> form \<Rightarrow> jsval obj \<times> form" where
  "exec rules (SetFieldValue name v) (iv, s) = (iv, setFieldValue rules name v s)"
| "exec rules (SetFieldError name error) (iv, s) = (iv, setFieldError name error s)"
| "exec rules (ClearFieldError name) (iv, s) = (iv, clearFieldError name s)"
| "exec rules (TouchField name) (iv, s) = (iv, touchField name s)"
| "exec rules (ValidateField name) (iv, s) = (iv, snd (validateField rules name s))"
| "exec rules Validate (iv, s) = (iv, snd (validate rules s))"
| "exec rules Reset (iv, s) = (iv, reset iv s)"
| "exec rules (Submit onSubmit) (iv, s) =
     (iv, snd (submit rules
                 (\<lambda>s'. case onSubmit (values s') of
                         (completion, vs) \<Rightarrow> (completion, s'\<lparr>values := vs\<rparr>))
                 s))"
| "exec rules WatcherRuns (iv, s) = (iv, watch_callback iv s)"
| "exec rules (CallerWrites name v) (iv, s) = (obj_set name v iv, s)"

text \<open>The state of the form after a sequence of calls on a form constructed with \<open>init\<close>.\<close>

definition run :: "jsval obj \<Rightarrow> FormRules option \<Rightarrow> call list \<Rightarrow> form" where
  "run init rules calls = snd (fold (exec rules) calls (init, useForm init))"


section \<open>The field binding (useFormField)\<close>

datatype ValidateStatus = Success | Warning | Error | Validating

text \<open>
  \<open>form.errors[name]\<close> and \<open>form.touched[name]\<close> follow the prototype chain: when
  the object has no entry of its own under the name, the read gives what the object
  inherits under it, \<open>undefined\<close> for most names and an object for a member of
  \<open>Object.prototype\<close> (or a flag of the reactive proxy). What is inherited is the
  parameter \<open>inherited\<close>; without a form the read gives \<open>undefined\<close>.
\<close>

definition useFormField_error ::
  "(jsstring \<Rightarrow> jsval) \<Rightarrow> jsstring \<Rightarrow> form option \<Rightarrow> jsval" where
  "useFormField_error inherited name form =
     (case form of
        None \<Rightarrow> JUndefined
      | Some s \<Rightarrow> (case obj_get (errors s) name of Some m \<Rightarrow> JStr m | None \<Rightarrow> inherited name))"

definition useFormField_touched ::
  "(jsstring \<Rightarrow> jsval) \<Rightarrow> jsstring \<Rightarrow> form option \<Rightarrow> jsval" where
  "useFormField_touched inherited name form =
     (case form of
        None \<Rightarrow> JUndefined
      | Some s \<Rightarrow> (case obj_get (touched s) name of Some b \<Rightarrow> JBool b | None \<Rightarrow> inherited name))"

definition useFormField_status ::
  "(jsstring \<Rightarrow> jsval) \<Rightarrow> jsstring \<Rightarrow> form option \<Rightarrow> ValidateStatus" where
  "useFormField_status inherited name form =
     (if truthy (useFormField_error inherited name form) then Error
      else if truthy (useFormField_touched inherited name form)
              \<and> \<not> truthy (useFormField_error inherited name form) then Success
      else Validating)"


section \<open>The built-in rules (validators)\<close>

text \<open>
  What the validators use of the language. The routines that read or print a double, and
  those that run the code of an object, are parameters: the literal grammar
  (\<open>StringNumericLiteral\<close>, on a trimmed string that is not empty), \<open>Number::toString\<close>,
  and for an object its conversion to a string, to a number, and its \<open>length\<close>.
\<close>

record host =
  string_numeric_literal :: "jsstring \<Rightarrow> jsnum"
  number_to_string :: "jsnum \<Rightarrow> jsstring"
  object_to_string :: "nat \<Rightarrow> exc + jsstring"
  object_to_number :: "nat \<Rightarrow> exc + jsnum"
  object_length :: "nat \<Rightarrow> exc + jsval"

text \<open>White space and line terminators: the class \<open>\s\<close>, also what \<open>Number\<close> trims.\<close>

definition is_space :: "code_unit \<Rightarrow> bool" where
  "is_space c =
     (c \<in> {0x09, 0x0A, 0x0B, 0x0C, 0x0D, 0x20, 0xA0, 0x1680, 0x2028, 0x2029, 0x202F,
            0x205F, 0x3000, 0xFEFF}
      \<or> (0x2000 \<le> c \<and> c \<le> 0x200A))"

definition ascii :: "string \<Rightarrow> jsstring" where
  "ascii cs = map (\<lambda>c. of_nat (of_char c)) cs"

definition trim :: "jsstring \<Rightarrow> jsstring" where
  "trim s = rev (dropWhile is_space (rev (dropWhile is_space s)))"

definition string_to_number :: "host \<Rightarrow> jsstring \<Rightarrow> jsnum" where
  "string_to_number h s = (if trim s = [] then Fin 0 else string_numeric_literal h (trim s))"

definition to_number :: "host \<Rightarrow> jsval \<Rightarrow> exc + jsnum" where
  "to_number h v =
     (case v of
        JUndefined \<Rightarrow> Inr NaN
      | JNull \<Rightarrow> Inr (Fin 0)
      | JBool b \<Rightarrow> Inr (Fin (if b then 1 else 0))
      | JNum n \<Rightarrow> Inr n
      | JStr s \<Rightarrow> Inr (string_to_number h s)
      | JObj r \<Rightarrow> object_to_number h r)"

definition to_string :: "host \<Rightarrow> jsval \<Rightarrow> exc + jsstring" where
  "to_string h v =
     (case v of
        JUndefined \<Rightarrow> Inr (ascii ''undefined'')
      | JNull \<Rightarrow> Inr (ascii ''null'')
      | JBool b \<Rightarrow> Inr (ascii (if b then ''true'' else ''false''))
      | JNum n \<Rightarrow> Inr (number_to_string h n)
      | JStr s \<Rightarrow> Inr s
      | JObj r \<Rightarrow> object_to_string h r)"

text \<open>\<open>value.length\<close> of a value that is neither \<open>undefined\<close> nor \<open>null\<close>.\<close>

definition get_length :: "host \<Rightarrow> jsval \<Rightarrow> exc + jsval" where
  "get_length h v =
     (case v of
        JStr s \<Rightarrow> Inr (JNum (Fin (real (length s))))
      | JObj r \<Rightarrow> object_length h r
      | _ \<Rightarrow> Inr JUndefined)"

text \<open>\<open>a <= b\<close> on numbers: false when either is NaN.\<close>

fun num_le :: "jsnum \<Rightarrow> jsnum \<Rightarrow> bool" where
  "num_le NaN b = False"
| "num_le a NaN = False"
| "num_le NegInf b = True"
| "num_le a PosInf = True"
| "num_le (Fin x) (Fin y) = (x \<le> y)"
| "num_le (Fin x) NegInf = False"
| "num_le PosInf b = False"

text \<open>\<open>v >= bound\<close> and \<open>v <= bound\<close> with a number on the right: \<open>v\<close> is converted.\<close>

definition ge_number :: "host \<Rightarrow> jsval \<Rightarrow> jsnum \<Rightarrow> exc + bool" where
  "ge_number h v bound =
     (case to_number h v of Inl thrown \<Rightarrow> Inl thrown | Inr n \<Rightarrow> Inr (num_le bound n))"

definition le_number :: "host \<Rightarrow> jsval \<Rightarrow> jsnum \<Rightarrow> exc + bool" where
  "le_number h v bound =
     (case to_number h v of Inl thrown \<Rightarrow> Inl thrown | Inr n \<Rightarrow> Inr (num_le n bound))"

text \<open>
  The pattern \<open>/^[^\s@]+@[^\s@]+\.[^\s@]+$/\<close> is a sequence of items, each one code
  unit of a class or one or more of them. \<open>rx_rests\<close> lists what can remain of the input
  after the items; the pattern matches when nothing can remain.
\<close>

datatype rx_item = One "code_unit \<Rightarrow> bool" | OneOrMore "code_unit \<Rightarrow> bool"

fun rests_plus :: "(code_unit \<Rightarrow> bool) \<Rightarrow> jsstring \<Rightarrow> jsstring list" where
  "rests_plus p [] = []"
| "rests_plus p (c # cs) = (if p c then cs # rests_plus p cs else [])"

fun rx_rests :: "rx_item list \<Rightarrow> jsstring \<Rightarrow> jsstring list" where
  "rx_rests [] s = [s]"
| "rx_rests (One p # items) s =
     (case s of [] \<Rightarrow> [] | c # cs \<Rightarrow> if p c then rx_rests items cs else [])"
| "rx_rests (OneOrMore p # items) s = concat (map (rx_rests items) (rests_plus p s))"

definition rx_test :: "rx_item list \<Rightarrow> jsstring \<Rightarrow> bool" where
  "rx_test items s = ([] \<in> set (rx_rests items s))"

definition not_space_at :: "code_unit \<Rightarrow> bool" where
  "not_space_at c = (\<not> is_space c \<and> c \<noteq> 0x40)"

definition emailRegex :: "rx_item list" where
  "emailRegex =
     [OneOrMore not_space_at, One (\<lambda>c. c = 0x40), OneOrMore not_space_at,
      One (\<lambda>c. c = 0x2E), OneOrMore not_space_at]"

text \<open>\<open>cond || message || dflt\<close> where \<open>cond\<close> is a boolean and \<open>dflt\<close> is not empty.\<close>

definition or_message :: "bool \<Rightarrow> jsstring option \<Rightarrow> jsstring \<Rightarrow> jsval" where
  "or_message cond msg dflt =
     (if cond then JBool True
      else case msg of
             None \<Rightarrow> JStr dflt
           | Some m \<Rightarrow> if m \<noteq> [] then JStr m else JStr dflt)"

text \<open>A parameter with a default value: the default stands for \<open>undefined\<close>.\<close>

definition param_default :: "jsstring option \<Rightarrow> jsstring \<Rightarrow> jsstring" where
  "param_default msg dflt = (case msg of None \<Rightarrow> dflt | Some m \<Rightarrow> m)"

definition no_rule :: FormRule where
  "no_rule = \<lparr> required = None, message = None, validator = None, trigger = None \<rparr>"

definition validators_required :: "jsstring option \<Rightarrow> FormRule" where
  "validators_required msg =
     no_rule\<lparr> required := Some True,
              message := Some (param_default msg default_required_message) \<rparr>"

definition email_message :: jsstring where
  "email_message =
     [0x8BF7, 0x8F93, 0x5165, 0x6709, 0x6548, 0x7684, 0x90AE, 0x7BB1, 0x5730, 0x5740]"

definition validators_email :: "host \<Rightarrow> jsstring option \<Rightarrow> FormRule" where
  "validators_email h msg =
     no_rule\<lparr> validator := Some (\<lambda>v.
       if \<not> truthy v then Inr (JBool True)
       else case to_string h v of
              Inl thrown \<Rightarrow> Inl thrown
            | Inr s \<Rightarrow> Inr (if rx_test emailRegex s then JBool True
                            else JStr (param_default msg email_message))) \<rparr>"

definition minLength_message :: "host \<Rightarrow> jsnum \<Rightarrow> jsstring" where
  "minLength_message h m =
     [0x6700, 0x5C11, 0x8F93, 0x5165] @ number_to_string h m @ [0x4E2A, 0x5B57, 0x7B26]"

definition validators_minLength :: "host \<Rightarrow> jsnum \<Rightarrow> jsstring option \<Rightarrow> FormRule" where
  "validators_minLength h m msg =
     no_rule\<lparr> validator := Some (\<lambda>v.
       if \<not> truthy v then Inr (JBool True)
       else case get_length h v of
              Inl thrown \<Rightarrow> Inl thrown
            | Inr len \<Rightarrow>
                (case ge_number h len m of
                   Inl thrown \<Rightarrow> Inl thrown
                 | Inr ok \<Rightarrow> Inr (or_message ok msg (minLength_message h m)))) \<rparr>"

definition maxLength_message :: "host \<Rightarrow> jsnum \<Rightarrow> jsstring" where
  "maxLength_message h m =
     [0x6700, 0x591A, 0x8F93, 0x5165] @ number_to_string h m @ [0x4E2A, 0x5B57, 0x7B26]"

definition validators_maxLength :: "host \<Rightarrow> jsnum \<Rightarrow> jsstring option \<Rightarrow> FormRule" where
  "validators_maxLength h m msg =
     no_rule\<lparr> validator := Some (\<lambda>v.
       if \<not> truthy v then Inr (JBool True)
       else case get_length h v of
              Inl thrown \<Rightarrow> Inl thrown
            | Inr len \<Rightarrow>
                (case le_number h len m of
                   Inl thrown \<Rightarrow> Inl thrown
                 | Inr ok \<Rightarrow> Inr (or_message ok msg (maxLength_message h m)))) \<rparr>"

definition pattern_message :: jsstring where
  "pattern_message = [0x683C, 0x5F0F, 0x4E0D, 0x6B63, 0x786E]"

text \<open>The \<open>RegExp\<close> of the caller is given by its \<open>test\<close> on a string.\<close>

definition validators_pattern ::
  "host \<Rightarrow> (jsstring \<Rightarrow> bool) \<Rightarrow> jsstring option \<Rightarrow> FormRule" where
  "validators_pattern h regex_test msg =
     no_rule\<lparr> validator := Some (\<lambda>v.
       if \<not> truthy v then Inr (JBool True)
       else case to_string h v of
              Inl thrown \<Rightarrow> Inl thrown
            | Inr s \<Rightarrow> Inr (if regex_test s then JBool True
                            else JStr (param_default msg pattern_message))) \<rparr>"

definition number_message :: jsstring where
  "number_message = [0x8BF7, 0x8F93, 0x5165, 0x6709, 0x6548, 0x7684, 0x6570, 0x5B57]"

definition validators_number :: "host \<Rightarrow> jsstring option \<Rightarrow> FormRule" where
  "validators_number h msg =
     no_rule\<lparr> validator := Some (\<lambda>v.
       if v = JStr [] \<or> v = JNull \<or> v = JUndefined then Inr (JBool True)
       else case to_number h v of
              Inl thrown \<Rightarrow> Inl thrown
            | Inr n \<Rightarrow> Inr (if n \<noteq> NaN then JBool True
                            else JStr (param_default msg number_message))) \<rparr>"

definition min_message :: "host \<Rightarrow> jsnum \<Rightarrow> jsstring" where
  "min_message h m = [0x503C, 0x4E0D, 0x80FD, 0x5C0F, 0x4E8E] @ number_to_string h m"

definition validators_min :: "host \<Rightarrow> jsnum \<Rightarrow> jsstring option \<Rightarrow> FormRule" where
  "validators_min h m msg =
     no_rule\<lparr> validator := Some (\<lambda>v.
       if v = JNull \<or> v = JUndefined then Inr (JBool True)
       else case ge_number h v m of
              Inl thrown \<Rightarrow> Inl thrown
            | Inr ok \<Rightarrow> Inr (or_message ok msg (min_message h m))) \<rparr>"

definition max_message :: "host \<Rightarrow> jsnum \<Rightarrow> jsstring" where
  "max_message h m = [0x503C, 0x4E0D, 0x80FD, 0x5927, 0x4E8E] @ number_to_string h m"

definition validators_max :: "host \<Rightarrow> jsnum \<Rightarrow> jsstring option \<Rightarrow> FormRule" where
  "validators_max h m msg =
     no_rule\<lparr> validator := Some (\<lambda>v.
       if v = JNull \<or> v = JUndefined then Inr (JBool True)
       else case le_number h v m of
              Inl thrown \<Rightarrow> Inl thrown
            | Inr ok \<Rightarrow> Inr (or_message ok msg (max_message h m))) \<rparr>"


text \<open>Whether \<open>validateField\<close> returns true for a field in a state.\<close>

definition passes :: "FormRules option \<Rightarrow> form \<Rightarrow> jsstring \<Rightarrow> bool" where
  "passes rules s name = (fst (validateField rules name s) = Inr True)"

text \<open>
  A host for the closed examples, which do not depend on what its routines return, and
  the rules of the scenario \<open>{email: [required(), email()]}\<close>.
\<close>

definition example_host :: host where
  "example_host =
     \<lparr> string_numeric_literal = (\<lambda>s. NaN), number_to_string = (\<lambda>n. []),
       object_to_string = (\<lambda>r. Inr []), object_to_number = (\<lambda>r. Inr NaN),
       object_length = (\<lambda>r. Inr JUndefined) \<rparr>"

definition email_rules :: FormRules where
  "email_rules =
     [(ascii ''email'', Many [validators_required None, validators_email example_host None])]"

text \<open>
  What an object inherits from \<open>Object.prototype\<close>: its members, each an object, and
  nothing under any other name.
\<close>

definition object_prototype_names :: "jsstring list" where
  "object_prototype_names =
     map ascii
       [''constructor'', ''hasOwnProperty'', ''isPrototypeOf'', ''propertyIsEnumerable'',
        ''toLocaleString'', ''toString'', ''valueOf'', ''__proto__'', ''__defineGetter__'',
        ''__defineSetter__'', ''__lookupGetter__'', ''__lookupSetter__'']"

definition object_prototype :: "jsstring \<Rightarrow> jsval" where
  "object_prototype name =
     (if name \<in> set object_prototype_names
      then JObj (length (takeWhile (\<lambda>n. n \<noteq> name) object_prototype_names))
      else JUndefined)"


section \<open>Lemmas\<close>

subsection \<open>Objects\<close>


lemma obj_get_set: "obj_get (obj_set k v ob) k' = (if k' = k then Some v else obj_get ob k')"
  by (simp add: obj_get_def obj_set_def update_conv')

lemma obj_get_delete: "obj_get (obj_delete k ob) k' = (if k' = k then None else obj_get ob k')"
  by (simp add: obj_get_def obj_delete_def delete_conv')

lemma obj_get_append:
  "obj_get (xs @ ys) k = (case obj_get xs k of Some v \<Rightarrow> Some v | None \<Rightarrow> obj_get ys k)"
  by (simp add: obj_get_def map_add_def split: option.split)

lemma obj_get_assign:
  "obj_get (object_assign target source) k =
     (case obj_get (rev source) k of Some v \<Rightarrow> Some v | None \<Rightarrow> obj_get target k)"
  unfolding object_assign_def
proof (induction source arbitrary: target)
  case Nil
  then show ?case by (simp add: obj_get_def)
next
  case (Cons p source)
  obtain k' v' where p: "p = (k', v')" by (cases p)
  show ?case
    by (auto simp: p Cons.IH obj_get_set obj_get_append obj_get_def [of "[(k', v')]"]
          split: option.split)
qed

lemma obj_get_rev: "distinct (obj_keys ob) \<Longrightarrow> obj_get (rev ob) k = obj_get ob k"
proof -
  assume d: "distinct (obj_keys ob)"
  have "map_of (rev ob) = map_of ob"
    by (subst map_of_inject_set) (use d in \<open>simp_all add: obj_keys_def flip: rev_map\<close>)
  then show ?thesis by (simp add: obj_get_def)
qed

lemma obj_keys_assign_subset:
  "set (obj_keys source) \<subseteq> set (obj_keys target) \<Longrightarrow>
     obj_keys (object_assign target source) = obj_keys target"
  unfolding object_assign_def
proof (induction source arbitrary: target)
  case Nil
  then show ?case by simp
next
  case (Cons p source)
  obtain k v where p: "p = (k, v)" by (cases p)
  have keys: "obj_keys (obj_set k v target) = obj_keys target"
    using Cons.prems by (simp add: p obj_keys_def obj_set_def update_keys)
  have "set (obj_keys source) \<subseteq> set (obj_keys (obj_set k v target))"
    unfolding keys using Cons.prems by (simp add: p obj_keys_def)
  from Cons.IH [OF this] show ?case by (simp add: p keys)
qed

lemma obj_eqI:
  "obj_keys xs = obj_keys ys \<Longrightarrow> distinct (obj_keys xs) \<Longrightarrow>
     (\<And>k. obj_get xs k = obj_get ys k) \<Longrightarrow> xs = ys"
  unfolding obj_keys_def obj_get_def
proof (induction xs arbitrary: ys)
  case Nil
  then show ?case by simp
next
  case (Cons x xs)
  then obtain y ys' where ys: "ys = y # ys'" by (cases ys) auto
  obtain k v where x: "x = (k, v)" by (cases x)
  obtain k' v' where y: "y = (k', v')" by (cases y)
  from Cons.prems(1) have kk: "k' = k" and keys: "map fst xs = map fst ys'"
    by (simp_all add: ys x y)
  from Cons.prems(3) [of k] have vv: "v' = v" by (simp add: ys x y kk)
  have "map_of xs j = map_of ys' j" for j
  proof (cases "j = k")
    case True
    have "j \<notin> set (map fst xs)"
      using True Cons.prems(2) by (simp add: x)
    then have "j \<notin> fst ` set xs" "j \<notin> fst ` set ys'"
      using keys by (simp_all flip: set_map)
    then have "map_of xs j = None" "map_of ys' j = None"
      by (simp_all add: map_of_eq_None_iff)
    then show ?thesis by simp
  next
    case False
    with Cons.prems(3) [of j] show ?thesis by (simp add: ys x y kk)
  qed
  with Cons.IH [of ys'] keys Cons.prems(2) have "xs = ys'" by (simp add: x)
  then show ?case by (simp add: ys x y kk vv)
qed

lemma object_assign_same_keys:
  assumes "distinct (obj_keys source)" and "obj_keys target = obj_keys source"
  shows "object_assign target source = source"
proof (rule obj_eqI)
  show keys: "obj_keys (object_assign target source) = obj_keys source"
    using assms(2) by (simp add: obj_keys_assign_subset)
  show "distinct (obj_keys (object_assign target source))"
    using keys assms(1) by simp
  fix k
  show "obj_get (object_assign target source) k = obj_get source k"
  proof (cases "obj_get source k")
    case None
    then have "k \<notin> set (obj_keys source)"
      by (simp add: obj_get_def obj_keys_def map_of_eq_None_iff flip: set_map)
    then have "obj_get target k = None"
      using assms(2) by (simp add: obj_get_def obj_keys_def map_of_eq_None_iff flip: set_map)
    with None show ?thesis by (simp add: obj_get_assign obj_get_rev assms(1))
  next
    case (Some v)
    then show ?thesis by (simp add: obj_get_assign obj_get_rev assms(1))
  qed
qed


subsection \<open>validateRule and validateField\<close>

lemma validateRule_returns: "\<exists>r. validateRule v rule = Inr r"
  by (simp add: validateRule_def try_catch_def split: option.split sum.split jsval.split)

lemma validateField_loop_all_pass:
  "(\<And>r. r \<in> set frs \<Longrightarrow> validateRule v r = Inr Pass) \<Longrightarrow>
     validateField_loop name v frs s = (Inr True, s\<lparr>errors := obj_delete name (errors s)\<rparr>)"
  by (induction frs) simp_all

lemma validateField_loop_first_failure:
  "(\<And>p. p \<in> set pre \<Longrightarrow> validateRule v p = Inr Pass) \<Longrightarrow> validateRule v r = Inr (Fail m) \<Longrightarrow>
     validateField_loop name v (pre @ r # post) s =
       (Inr False, s\<lparr>errors := obj_set name m (errors s)\<rparr>)"
  by (induction pre) simp_all

lemma validateField_loop_cases:
  "validateField_loop name v frs s = (Inr True, s\<lparr>errors := obj_delete name (errors s)\<rparr>)
   \<or> (\<exists>m. validateField_loop name v frs s = (Inr False, s\<lparr>errors := obj_set name m (errors s)\<rparr>))"
proof (induction frs)
  case Nil
  then show ?case by simp
next
  case (Cons r frs)
  obtain res where "validateRule v r = Inr res"
    using validateRule_returns by blast
  then show ?case using Cons by (cases res) auto
qed

lemma validateField_cases:
  "validateField rules name s = (Inr True, s)
   \<or> validateField rules name s = (Inr True, s\<lparr>errors := obj_delete name (errors s)\<rparr>)
   \<or> (\<exists>m. validateField rules name s = (Inr False, s\<lparr>errors := obj_set name m (errors s)\<rparr>))"
  using validateField_loop_cases [of name "obj_read (values s) name" _ s]
  by (auto simp: validateField_def split: option.split)

lemma validateField_returns: "\<exists>b. fst (validateField rules name s) = Inr b"
  using validateField_cases [of rules name s] by auto

lemma validateField_frame:
  "values (snd (validateField rules name s)) = values s"
  "touched (snd (validateField rules name s)) = touched s"
  "dirty (snd (validateField rules name s)) = dirty s"
  "submitting (snd (validateField rules name s)) = submitting s"
  using validateField_cases [of rules name s] by auto

lemma validateField_other_errors:
  "name' \<noteq> name \<Longrightarrow>
     obj_get (errors (snd (validateField rules name s))) name' = obj_get (errors s) name'"
  using validateField_cases [of rules name s] by (auto simp: obj_get_set obj_get_delete)

lemma validateField_loop_result_values:
  "fst (validateField_loop name v frs s) = fst (validateField_loop name v frs s')"
  by (induction frs) (simp_all split: sum.split rule_result.split)

lemma validateField_result_values:
  "values s = values s' \<Longrightarrow> fst (validateField rules name s) = fst (validateField rules name s')"
  using validateField_loop_result_values
  by (auto simp: validateField_def split: option.split)

subsection \<open>validate\<close>

lemma validate_dispatch_Cons:
  "validate_dispatch rules (name # names) s =
     (fst (validateField rules name s)
        # fst (validate_dispatch rules names (snd (validateField rules name s))),
      snd (validate_dispatch rules names (snd (validateField rules name s))))"
  by (simp split: prod.split)

lemma validate_dispatch_frame:
  "values (snd (validate_dispatch rules names s)) = values s
   \<and> touched (snd (validate_dispatch rules names s)) = touched s
   \<and> dirty (snd (validate_dispatch rules names s)) = dirty s
   \<and> submitting (snd (validate_dispatch rules names s)) = submitting s"
proof (induction names arbitrary: s)
  case Nil
  then show ?case by simp
next
  case (Cons name names)
  show ?case
    using Cons [of "snd (validateField rules name s)"] validateField_frame [of rules name s]
    by (simp add: validate_dispatch_Cons del: validate_dispatch.simps)
qed

lemma validate_dispatch_results:
  "fst (validate_dispatch rules names s) = map (\<lambda>name. fst (validateField rules name s)) names"
proof (induction names arbitrary: s)
  case Nil
  then show ?case by simp
next
  case (Cons name names)
  have "fst (validateField rules n (snd (validateField rules name s))) = fst (validateField rules n s)"
    for n
    by (rule validateField_result_values) (simp add: validateField_frame)
  then show ?case
    using Cons [of "snd (validateField rules name s)"]
    by (simp add: validate_dispatch_Cons del: validate_dispatch.simps)
qed

lemma validate_dispatch_other_errors:
  "name' \<notin> set names \<Longrightarrow>
     obj_get (errors (snd (validate_dispatch rules names s))) name' = obj_get (errors s) name'"
proof (induction names arbitrary: s)
  case Nil
  then show ?case by simp
next
  case (Cons name names)
  then show ?case
    using Cons.IH [of "snd (validateField rules name s)"]
      validateField_other_errors [of name' name rules s]
    by (simp add: validate_dispatch_Cons del: validate_dispatch.simps)
qed

lemma promise_all_results:
  "promise_all (map (\<lambda>x. Inr (f x)) xs) = Inr (map f xs)"
  by (induction xs) simp_all

lemma validateField_result_passes: "fst (validateField rules name s) = Inr (passes rules s name)"
  using validateField_cases [of rules name s] by (auto simp: passes_def)

lemma validate_Some:
  "validate (Some rs) s =
     (case promise_all (fst (validate_dispatch (Some rs) (obj_keys rs) s)) of
        Inl thrown \<Rightarrow> Inl thrown
      | Inr results \<Rightarrow> Inr (list_all (\<lambda>result. result) results),
      snd (validate_dispatch (Some rs) (obj_keys rs) s))"
  by (simp add: validate_def split: prod.split sum.split)

lemma validate_result:
  "fst (validate (Some rs) s) = Inr (list_all (passes (Some rs) s) (obj_keys rs))"
proof -
  have "fst (validate_dispatch (Some rs) (obj_keys rs) s) =
          map (\<lambda>name. Inr (passes (Some rs) s name)) (obj_keys rs)"
    by (simp add: validate_dispatch_results validateField_result_passes)
  then show ?thesis
    by (simp add: validate_Some promise_all_results list_all_iff)
qed

lemma validate_returns: "\<exists>b. fst (validate rules s) = Inr b"
proof (cases rules)
  case None
  then show ?thesis by (auto simp: validate_def)
next
  case (Some rs)
  then show ?thesis by (simp add: validate_result)
qed

lemma validate_frame:
  "values (snd (validate rules s)) = values s
   \<and> touched (snd (validate rules s)) = touched s
   \<and> dirty (snd (validate rules s)) = dirty s
   \<and> submitting (snd (validate rules s)) = submitting s"
proof (cases rules)
  case None
  then show ?thesis by (simp add: validate_def)
next
  case (Some rs)
  then show ?thesis
    using validate_dispatch_frame [of rules "obj_keys rs" s]
    by (simp add: validate_Some)
qed

subsection \<open>The scenario of the email field\<close>

lemma ascii_email: "ascii ''email'' = [0x65, 0x6D, 0x61, 0x69, 0x6C]"
  by (simp add: ascii_def)

lemma ascii_address: "ascii ''a@b.com'' = [0x61, 0x40, 0x62, 0x2E, 0x63, 0x6F, 0x6D]"
  by (simp add: ascii_def)

lemma email_address_matches: "rx_test emailRegex (ascii ''a@b.com'')"
  by (simp add: ascii_address rx_test_def emailRegex_def not_space_at_def is_space_def)

lemma scenario_required_fails:
  "validateRule (JStr []) (validators_required None) = Inr (Fail default_required_message)"
  by (simp add: validateRule_def validators_required_def no_rule_def is_absent_def
      message_or_def param_default_def default_required_message_def)

lemma scenario_required_passes:
  "validateRule (JStr (ascii ''a@b.com'')) (validators_required None) = Inr Pass"
  by (simp add: validateRule_def validators_required_def no_rule_def is_absent_def ascii_address)

lemma scenario_email_passes:
  "validateRule (JStr (ascii ''a@b.com'')) (validators_email example_host None) = Inr Pass"
  using email_address_matches
  by (simp add: validateRule_def validators_email_def no_rule_def try_catch_def truthy_def
      to_string_def ascii_address)

lemma scenario_email_field_passes:
  assumes "obj_read (values s) (ascii ''email'') = JStr (ascii ''a@b.com'')"
  shows "passes (Some email_rules) s (ascii ''email'')"
proof -
  have "validateField_loop (ascii ''email'') (JStr (ascii ''a@b.com''))
          [validators_required None, validators_email example_host None] s
        = (Inr True, s\<lparr>errors := obj_delete (ascii ''email'') (errors s)\<rparr>)"
    using scenario_required_passes scenario_email_passes
    by (intro validateField_loop_all_pass) auto
  then show ?thesis
    using assms by (simp add: passes_def validateField_def email_rules_def obj_get_def fieldRules_def)
qed

lemma scenario_email_field_fails:
  assumes "obj_read (values s) (ascii ''email'') = JStr []"
  shows "validateField (Some email_rules) (ascii ''email'') s
           = (Inr False,
              s\<lparr>errors := obj_set (ascii ''email'') default_required_message (errors s)\<rparr>)"
  using assms scenario_required_fails
    validateField_loop_first_failure
      [of "[]" "JStr []" "validators_required None" default_required_message "ascii ''email''"
          "[validators_email example_host None]" s]
  by (simp add: validateField_def email_rules_def obj_get_def fieldRules_def)

subsection \<open>The constructor\<close>

lemma object_assign_append:
  "distinct (obj_keys (acc @ source)) \<Longrightarrow> object_assign acc source = acc @ source"
  unfolding object_assign_def
proof (induction source arbitrary: acc)
  case Nil
  then show ?case by simp
next
  case (Cons p source)
  obtain k v where p: "p = (k, v)" by (cases p)
  have notin: "k \<notin> fst ` set acc"
    using Cons.prems by (auto simp: p obj_keys_def)
  have upd: "obj_set k v acc = acc @ [(k, v)]"
    unfolding obj_set_def using notin by (induction acc) auto
  have "distinct (obj_keys ((acc @ [(k, v)]) @ source))"
    using Cons.prems by (simp add: p)
  from Cons.IH [OF this] show ?case by (simp add: p upd)
qed

lemma useForm_values: "distinct (obj_keys init) \<Longrightarrow> values (useForm init) = init"
  using object_assign_append [of "[]" init] by (simp add: useForm_def)


section \<open>The properties of the specification\<close>

text \<open>
  C1. In every state that a sequence of calls reaches from the constructor, \<open>valid\<close> is
  true exactly when \<open>errors\<close> has no entry. The state has no variable for \<open>valid\<close>, so no
  call can set it: it is computed from \<open>errors\<close>, and the \<open>valid\<close> of \<open>formState\<close> is
  that same value.
\<close>

theorem valid_iff_no_errors:
  "valid (run init rules calls) = (errors (run init rules calls) = [])
   \<and> valid (run init rules calls) = (\<forall>name. obj_get (errors (run init rules calls)) name = None)
   \<and> FormState.valid (formState (run init rules calls)) = valid (run init rules calls)"
proof -
  have "(\<forall>name. obj_get ob name = None) = (ob = [])" for ob :: "jsstring obj"
    by (cases ob) (auto simp: obj_get_def)
  then show ?thesis
    by (simp add: valid_def obj_keys_def formState_def)
qed

theorem valid_iff_no_errors_witness:
  "valid (run [] None [])
   \<and> \<not> valid (run [] None [SetFieldError (ascii ''a'') (ascii ''bad'')])
   \<and> valid (run [] None [SetFieldError (ascii ''a'') (ascii ''bad''), ClearFieldError (ascii ''a'')])"
  using valid_iff_no_errors [of "[]" None "[]"]
    valid_iff_no_errors [of "[]" None "[SetFieldError (ascii ''a'') (ascii ''bad'')]"]
    valid_iff_no_errors [of "[]" None
      "[SetFieldError (ascii ''a'') (ascii ''bad''), ClearFieldError (ascii ''a'')]"]
  by (simp add: run_def useForm_def object_assign_def setFieldError_def clearFieldError_def
      obj_set_def obj_delete_def)

text \<open>
  C2. For every callback, \<open>submitting\<close> is false when \<open>submit\<close> is over. \<open>validate\<close>
  returns true or false and never throws. When it returns false the callback is not called
  and \<open>submit\<close> returns. When it returns true the callback runs while \<open>submitting\<close> is
  true, and \<open>submit\<close> ends as the callback does, with the flag cleared: it returns when
  the callback returns, and it throws what the callback throws.
\<close>

theorem submit_clears_submitting:
  "\<not> submitting (snd (submit rules onSubmit s))
   \<and> (\<exists>isValid. fst (validate rules (s\<lparr>submitting := True\<rparr>)) = Inr isValid)
   \<and> (fst (validate rules (s\<lparr>submitting := True\<rparr>)) = Inr False \<longrightarrow>
        submit rules onSubmit s =
          (Inr (), (snd (validate rules (s\<lparr>submitting := True\<rparr>)))\<lparr>submitting := False\<rparr>))
   \<and> (fst (validate rules (s\<lparr>submitting := True\<rparr>)) = Inr True \<longrightarrow>
        submitting (snd (validate rules (s\<lparr>submitting := True\<rparr>)))
        \<and> submit rules onSubmit s =
          (fst (onSubmit (snd (validate rules (s\<lparr>submitting := True\<rparr>)))),
           (snd (onSubmit (snd (validate rules (s\<lparr>submitting := True\<rparr>)))))\<lparr>submitting := False\<rparr>)
        \<and> (fst (onSubmit (snd (validate rules (s\<lparr>submitting := True\<rparr>)))) = Inl thrown \<longrightarrow>
             fst (submit rules onSubmit s) = Inl thrown))"
proof -
  obtain r s2 where v: "validate rules (s\<lparr>submitting := True\<rparr>) = (r, s2)"
    by (cases "validate rules (s\<lparr>submitting := True\<rparr>)")
  obtain b where r: "r = Inr b"
    using validate_returns [of rules "s\<lparr>submitting := True\<rparr>"] v by auto
  have flag: "submitting s2"
    using validate_frame [of rules "s\<lparr>submitting := True\<rparr>"] v by simp
  show ?thesis
    by (cases "onSubmit s2") (simp add: submit_def try_finally_def v r flag)
qed

theorem submit_clears_submitting_witness:
  "submit None (\<lambda>s. (Inl (JStr (ascii ''x'')), s)) (useForm [])
     = (Inl (JStr (ascii ''x'')), useForm [])
   \<and> submit None (\<lambda>s. (Inr (), s)) (useForm []) = (Inr (), useForm [])
   \<and> submit (Some email_rules) (\<lambda>s. (Inl (JStr (ascii ''x'')), s))
        (useForm [(ascii ''email'', JStr [])])
     = (Inr (),
        \<lparr> values = [(ascii ''email'', JStr [])],
          errors = [(ascii ''email'', default_required_message)], touched = [], dirty = [],
          submitting = False \<rparr>)"
proof -
  let ?s = "useForm [(ascii ''email'', JStr [])]"
  have s: "?s\<lparr>submitting := True\<rparr>
             = \<lparr> values = [(ascii ''email'', JStr [])], errors = [], touched = [], dirty = [],
                 submitting = True \<rparr>"
    by (simp add: useForm_def object_assign_def obj_set_def)
  have "validateField (Some email_rules) (ascii ''email'') (?s\<lparr>submitting := True\<rparr>)
          = (Inr False,
             \<lparr> values = [(ascii ''email'', JStr [])],
               errors = [(ascii ''email'', default_required_message)], touched = [], dirty = [],
               submitting = True \<rparr>)"
    by (subst scenario_email_field_fails) (simp_all add: s obj_read_def obj_get_def obj_set_def)
  then have v: "validate (Some email_rules) (?s\<lparr>submitting := True\<rparr>)
          = (Inr False,
             \<lparr> values = [(ascii ''email'', JStr [])],
               errors = [(ascii ''email'', default_required_message)], touched = [], dirty = [],
               submitting = True \<rparr>)"
    by (simp add: validate_def email_rules_def obj_keys_def)
  have a: "submit None (\<lambda>s. (Inl (JStr (ascii ''x'')), s)) (useForm [])
             = (Inl (JStr (ascii ''x'')), useForm [])"
    using submit_clears_submitting [of None "\<lambda>s. (Inl (JStr (ascii ''x'')), s)" "useForm []"]
    by (simp add: validate_def useForm_def object_assign_def)
  have b: "submit None (\<lambda>s. (Inr (), s)) (useForm []) = (Inr (), useForm [])"
    using submit_clears_submitting [of None "\<lambda>s. (Inr (), s)" "useForm []"]
    by (simp add: validate_def useForm_def object_assign_def)
  have c: "submit (Some email_rules) (\<lambda>s. (Inl (JStr (ascii ''x'')), s)) ?s
     = (Inr (),
        \<lparr> values = [(ascii ''email'', JStr [])],
          errors = [(ascii ''email'', default_required_message)], touched = [], dirty = [],
          submitting = False \<rparr>)"
    using submit_clears_submitting
      [of "Some email_rules" "\<lambda>s. (Inl (JStr (ascii ''x'')), s)" ?s]
    by (simp add: v)
  from a b c show ?thesis by simp
qed






text \<open>
  C5. For a rule with \<open>required\<close> set, the value \<open>undefined\<close>, \<open>null\<close> or \<open>''\<close> fails
  with the message of the rule, or with the default message of a required field when the
  rule has no message or an empty one. On any other value the required check passes: the
  result is that of the same rule without \<open>required\<close>, true when it has no validator.
\<close>

theorem required_rejects_absent_values:
  assumes "required rule = Some True"
  shows "(v \<in> {JUndefined, JNull, JStr []} \<longrightarrow>
            validateRule v rule = Inr (Fail (message_or rule default_required_message)))
       \<and> (v \<notin> {JUndefined, JNull, JStr []} \<longrightarrow>
            validateRule v rule = validateRule v (rule\<lparr>required := None\<rparr>))
       \<and> (v \<notin> {JUndefined, JNull, JStr []} \<and> validator rule = None \<longrightarrow>
            validateRule v rule = Inr Pass)
       \<and> (\<forall>m. message rule = Some m \<and> m \<noteq> [] \<longrightarrow>
            message_or rule default_required_message = m)
       \<and> (message rule = None \<or> message rule = Some [] \<longrightarrow>
            message_or rule default_required_message = default_required_message)"
proof -
  have "validateRule v rule = validateRule v (rule\<lparr>required := None\<rparr>)"
    if "v \<notin> {JUndefined, JNull, JStr []}"
    using that
    by (simp add: validateRule_def is_absent_def message_or_def try_catch_def
        split: option.split sum.split jsval.split)
  moreover have "validateRule v rule = Inr Pass"
    if "v \<notin> {JUndefined, JNull, JStr []}" "validator rule = None"
    using that by (simp add: validateRule_def is_absent_def)
  moreover have "validateRule v rule = Inr (Fail (message_or rule default_required_message))"
    if "v \<in> {JUndefined, JNull, JStr []}"
    using that assms by (auto simp: validateRule_def is_absent_def)
  ultimately show ?thesis
    by (auto simp: message_or_def)
qed

theorem required_rejects_absent_values_witness:
  "validateRule JNull (validators_required None) = Inr (Fail default_required_message)
   \<and> validateRule (JStr []) (validators_required (Some (ascii ''needed''))) = Inr (Fail (ascii ''needed''))
   \<and> validateRule (JNum (Fin 0)) (validators_required None) = Inr Pass"
  using required_rejects_absent_values [of "validators_required None" JNull]
    required_rejects_absent_values [of "validators_required (Some (ascii ''needed''))" "JStr []"]
    required_rejects_absent_values [of "validators_required None" "JNum (Fin 0)"]
  by (simp add: validators_required_def no_rule_def param_default_def ascii_def
      default_required_message_def message_or_def validateRule_def)

text \<open>
  C6. \<open>validateField\<close> never throws, whatever the rules and their validators do. When
  the validator of a rule is called and throws (or returns a promise that rejects),
  \<open>validateRule\<close> returns a failure with the message of the rule, or the default failure
  message when the rule has no message or an empty one, and \<open>validateField\<close> reaching
  that rule stores this message as the error of the field and returns false.
\<close>

theorem validator_exception_is_a_failure:
  "(\<exists>b. fst (validateField rules name s) = Inr b)
   \<and> (validator r = Some f \<and> f v = Inl thrown
        \<and> \<not> (required r = Some True \<and> v \<in> {JUndefined, JNull, JStr []}) \<longrightarrow>
        validateRule v r = Inr (Fail (message_or r default_failed_message))
        \<and> (message r = Some m \<and> m \<noteq> [] \<longrightarrow> validateRule v r = Inr (Fail m))
        \<and> (message r = None \<or> message r = Some [] \<longrightarrow>
              validateRule v r = Inr (Fail default_failed_message))
        \<and> (rules = Some rs \<and> obj_get rs name = Some rule \<and> fieldRules rule = pre @ r # post
              \<and> obj_read (values s) name = v
              \<and> (\<forall>p \<in> set pre. validateRule v p = Inr Pass) \<longrightarrow>
              validateField rules name s =
                (Inr False,
                 s\<lparr>errors := obj_set name (message_or r default_failed_message) (errors s)\<rparr>)))"
proof -
  have a: "\<exists>b. fst (validateField rules name s) = Inr b"
    by (rule validateField_returns)
  have b: "validateRule v r = Inr (Fail (message_or r default_failed_message))"
    if "validator r = Some f" "f v = Inl thrown"
      "\<not> (required r = Some True \<and> v \<in> {JUndefined, JNull, JStr []})"
    using that by (auto simp: validateRule_def is_absent_def try_catch_def)
  have c: "validateField rules name s =
             (Inr False, s\<lparr>errors := obj_set name (message_or r default_failed_message) (errors s)\<rparr>)"
    if "validateRule v r = Inr (Fail (message_or r default_failed_message))"
      "rules = Some rs" "obj_get rs name = Some rule" "fieldRules rule = pre @ r # post"
      "obj_read (values s) name = v" "\<forall>p \<in> set pre. validateRule v p = Inr Pass"
    using that validateField_loop_first_failure [of pre v r _ name post s]
    by (simp add: validateField_def)
  show ?thesis
    using a b c by (auto simp: message_or_def)
qed

theorem validator_exception_is_a_failure_witness:
  "validateField
     (Some [(ascii ''f'', Single (no_rule\<lparr>validator := Some (\<lambda>v. Inl (JStr (ascii ''boom'')))\<rparr>))])
     (ascii ''f'') (useForm [(ascii ''f'', JStr (ascii ''x''))])
   = (Inr False,
      (useForm [(ascii ''f'', JStr (ascii ''x''))])\<lparr>errors := [(ascii ''f'', default_failed_message)]\<rparr>)"
  using validator_exception_is_a_failure
    [where rules = "Some [(ascii ''f'', Single (no_rule\<lparr>validator := Some (\<lambda>v. Inl (JStr (ascii ''boom'')))\<rparr>))]"
       and rs = "[(ascii ''f'', Single (no_rule\<lparr>validator := Some (\<lambda>v. Inl (JStr (ascii ''boom'')))\<rparr>))]"
       and name = "ascii ''f''" and s = "useForm [(ascii ''f'', JStr (ascii ''x''))]"
       and r = "no_rule\<lparr>validator := Some (\<lambda>v. Inl (JStr (ascii ''boom'')))\<rparr>"
       and rule = "Single (no_rule\<lparr>validator := Some (\<lambda>v. Inl (JStr (ascii ''boom'')))\<rparr>)"
       and f = "\<lambda>v. Inl (JStr (ascii ''boom''))" and v = "JStr (ascii ''x'')"
       and thrown = "JStr (ascii ''boom'')" and pre = "[]" and post = "[]" and m = "[]"]
  by (simp add: no_rule_def ascii_def obj_get_def obj_read_def useForm_def object_assign_def
      obj_set_def fieldRules_def message_or_def)

text \<open>
  C7. The rules made by \<open>min\<close> and \<open>max\<close> skip \<open>undefined\<close> and \<open>null\<close> as the
  other rules do, and leave out \<open>''\<close>, which \<open>number\<close> and the required check list:
  \<open>''\<close> reaches the comparison, where it is the number 0. On every host, the rule
  \<open>min(1)\<close> rejects the empty string, with its default message.
\<close>

theorem min_rule_rejects_empty_string:
  "validateRule (JStr []) (validators_min h (Fin 1) None) = Inr (Fail (min_message h (Fin 1)))"
  by (simp add: validateRule_def validators_min_def no_rule_def try_catch_def ge_number_def
      to_number_def string_to_number_def trim_def or_message_def)

text \<open>
  What the built-in rules do with the three absent values: all but \<open>min\<close> and \<open>max\<close>
  pass them, \<open>required\<close> rejects them, and \<open>min\<close> and \<open>max\<close> pass \<open>undefined\<close>
  and \<open>null\<close> and compare \<open>''\<close> with their bound.
\<close>

lemma builtin_rules_on_absent_values:
  "(v \<in> {JUndefined, JNull, JStr []} \<longrightarrow>
      validateRule v (validators_email h msg) = Inr Pass
      \<and> validateRule v (validators_minLength h n msg) = Inr Pass
      \<and> validateRule v (validators_maxLength h n msg) = Inr Pass
      \<and> validateRule v (validators_pattern h regex_test msg) = Inr Pass
      \<and> validateRule v (validators_number h msg) = Inr Pass
      \<and> validateRule v (validators_required msg)
           = Inr (Fail (message_or (validators_required msg) default_required_message)))
   \<and> (v \<in> {JUndefined, JNull} \<longrightarrow>
      validateRule v (validators_min h n msg) = Inr Pass
      \<and> validateRule v (validators_max h n msg) = Inr Pass)
   \<and> (validateRule (JStr []) (validators_min h n msg) = Inr Pass \<longleftrightarrow> num_le n (Fin 0))
   \<and> (validateRule (JStr []) (validators_max h n msg) = Inr Pass \<longleftrightarrow> num_le (Fin 0) n)"
proof -
  have absent: "validateRule v (validators_email h msg) = Inr Pass
      \<and> validateRule v (validators_minLength h n msg) = Inr Pass
      \<and> validateRule v (validators_maxLength h n msg) = Inr Pass
      \<and> validateRule v (validators_pattern h regex_test msg) = Inr Pass
      \<and> validateRule v (validators_number h msg) = Inr Pass
      \<and> validateRule v (validators_required msg)
           = Inr (Fail (message_or (validators_required msg) default_required_message))"
    if "v \<in> {JUndefined, JNull, JStr []}"
    using that
    by (auto simp: validateRule_def validators_email_def validators_minLength_def
        validators_maxLength_def validators_pattern_def validators_number_def
        validators_required_def no_rule_def try_catch_def truthy_def is_absent_def)
  have missing: "validateRule v (validators_min h n msg) = Inr Pass
      \<and> validateRule v (validators_max h n msg) = Inr Pass"
    if "v \<in> {JUndefined, JNull}"
    using that
    by (auto simp: validateRule_def validators_min_def validators_max_def no_rule_def
        try_catch_def)
  have empty_min: "validateRule (JStr []) (validators_min h n msg) = Inr Pass \<longleftrightarrow> num_le n (Fin 0)"
    by (simp add: validateRule_def validators_min_def no_rule_def try_catch_def ge_number_def
        to_number_def string_to_number_def trim_def or_message_def split: option.split)
  have empty_max: "validateRule (JStr []) (validators_max h n msg) = Inr Pass \<longleftrightarrow> num_le (Fin 0) n"
    by (simp add: validateRule_def validators_max_def no_rule_def try_catch_def le_number_def
        to_number_def string_to_number_def trim_def or_message_def split: option.split)
  show ?thesis
    using absent missing empty_min empty_max by blast
qed

text \<open>
  C8. For a field name with no rule (there are no rules, or the rules have no entry for the
  name), \<open>validateField\<close> returns true and leaves the state as it is. \<open>validate\<close>
  returns true when there are no rules; otherwise it returns true exactly when
  \<open>validateField\<close> does for every key of the rules, and it leaves the error of a name
  that is not a key of the rules as it was.
\<close>

theorem fields_without_rules_pass:
  "(rules = None \<or> (\<exists>rs. rules = Some rs \<and> obj_get rs name = None) \<longrightarrow>
      validateField rules name s = (Inr True, s))
   \<and> validate None s = (Inr True, s)
   \<and> fst (validate (Some rs) s) = Inr (list_all (passes (Some rs) s) (obj_keys rs))
   \<and> (name \<notin> set (obj_keys rs) \<longrightarrow>
        obj_get rs name = None
        \<and> obj_get (errors (snd (validate (Some rs) s))) name = obj_get (errors s) name)"
proof -
  have "validateField rules name s = (Inr True, s)"
    if "rules = None \<or> (\<exists>rs. rules = Some rs \<and> obj_get rs name = None)"
    using that by (auto simp: validateField_def)
  moreover have "obj_get rs name = None" if "name \<notin> set (obj_keys rs)"
    using that by (simp add: obj_get_def obj_keys_def map_of_eq_None_iff flip: set_map)
  moreover have "obj_get (errors (snd (validate (Some rs) s))) name = obj_get (errors s) name"
    if "name \<notin> set (obj_keys rs)"
    using that by (simp add: validate_Some validate_dispatch_other_errors)
  ultimately show ?thesis
    by (simp add: validate_result) (simp add: validate_def)
qed

theorem fields_without_rules_pass_witness:
  "validateField (Some email_rules) (ascii ''name'')
     (useForm [(ascii ''email'', JStr []), (ascii ''name'', JStr [])])
   = (Inr True, useForm [(ascii ''email'', JStr []), (ascii ''name'', JStr [])])
   \<and> validate None (useForm [(ascii ''email'', JStr [])])
       = (Inr True, useForm [(ascii ''email'', JStr [])])
   \<and> fst (validate (Some email_rules)
             (useForm [(ascii ''email'', JStr (ascii ''a@b.com'')), (ascii ''name'', JStr [])]))
       = Inr True"
proof -
  let ?s = "useForm [(ascii ''email'', JStr (ascii ''a@b.com'')), (ascii ''name'', JStr [])]"
  have no_rule: "obj_get email_rules (ascii ''name'') = None"
    by (simp add: email_rules_def obj_get_def ascii_def)
  have "obj_read (values ?s) (ascii ''email'') = JStr (ascii ''a@b.com'')"
    by (simp add: useForm_def object_assign_def obj_set_def obj_read_def obj_get_def ascii_def)
  then have ok: "passes (Some email_rules) ?s (ascii ''email'')"
    by (rule scenario_email_field_passes)
  have keys: "obj_keys email_rules = [ascii ''email'']"
    by (simp add: email_rules_def obj_keys_def)
  show ?thesis
    using fields_without_rules_pass
        [where rules = "Some email_rules" and name = "ascii ''name''" and rs = email_rules
           and s = "useForm [(ascii ''email'', JStr []), (ascii ''name'', JStr [])]"]
      fields_without_rules_pass
        [where rules = None and name = "ascii ''name''" and rs = email_rules
           and s = "useForm [(ascii ''email'', JStr [])]"]
      fields_without_rules_pass
        [where rules = None and name = "ascii ''name''" and rs = email_rules and s = ?s]
      no_rule ok
    by (simp add: keys)
qed

text \<open>
  C9, as stated, fails: after \<open>setFieldError('a', '')\<close> and \<open>touchField('a')\<close> the
  field has an entry in \<open>errors\<close> (the form is not valid), and its status is
  \<open>'success'\<close>.
\<close>

theorem status_with_empty_error:
  "obj_get (errors (run [] None [SetFieldError (ascii ''a'') [], TouchField (ascii ''a'')]))
      (ascii ''a'') = Some []
   \<and> \<not> valid (run [] None [SetFieldError (ascii ''a'') [], TouchField (ascii ''a'')])
   \<and> useFormField_status object_prototype (ascii ''a'')
        (Some (run [] None [SetFieldError (ascii ''a'') [], TouchField (ascii ''a'')])) = Success"
  by (simp add: run_def useForm_def object_assign_def setFieldError_def touchField_def
      obj_set_def obj_get_def valid_def obj_keys_def useFormField_status_def
      useFormField_error_def useFormField_touched_def truthy_def)

text \<open>
  C9, amended. The status is \<open>'error'\<close> exactly when \<open>form.errors[name]\<close> reads as a
  truthy value: a message other than the empty string is stored for the field, or nothing
  is stored under the name and the object inherits a truthy value under it (as for the
  names \<open>toString\<close> and \<open>constructor\<close>; no ordinary field name is inherited). Otherwise
  it is \<open>'success'\<close> exactly when \<open>form.touched[name]\<close> reads as truthy (the field is
  touched, or nothing is stored and a truthy value is inherited), and \<open>'validating'\<close> in
  every other case, also when there is no form.
\<close>

theorem status_of_field:
  "(useFormField_status inherited name form = Error \<longleftrightarrow>
      (\<exists>s. form = Some s
           \<and> ((\<exists>m. obj_get (errors s) name = Some m \<and> m \<noteq> [])
                \<or> (obj_get (errors s) name = None \<and> truthy (inherited name)))))
   \<and> (useFormField_status inherited name form = Success \<longleftrightarrow>
        useFormField_status inherited name form \<noteq> Error
        \<and> (\<exists>s. form = Some s
             \<and> (obj_get (touched s) name = Some True
                  \<or> (obj_get (touched s) name = None \<and> truthy (inherited name)))))
   \<and> (useFormField_status inherited name form = Validating \<longleftrightarrow>
        useFormField_status inherited name form \<noteq> Error
        \<and> useFormField_status inherited name form \<noteq> Success)
   \<and> (inherited name = JUndefined \<longrightarrow>
        (useFormField_status inherited name form = Error \<longleftrightarrow>
           (\<exists>s m. form = Some s \<and> obj_get (errors s) name = Some m \<and> m \<noteq> []))
        \<and> (useFormField_status inherited name form = Success \<longleftrightarrow>
           (\<exists>s. form = Some s \<and> obj_get (touched s) name = Some True
                \<and> (obj_get (errors s) name = None \<or> obj_get (errors s) name = Some []))))"
  by (cases form)
    (auto simp: useFormField_status_def useFormField_error_def useFormField_touched_def
      truthy_def split: option.split)

theorem status_of_field_witness:
  "useFormField_status object_prototype (ascii ''a'')
     (Some (run [] None [SetFieldError (ascii ''a'') (ascii ''bad''), TouchField (ascii ''a'')]))
     = Error
   \<and> useFormField_status object_prototype (ascii ''a'')
       (Some (run [] None [TouchField (ascii ''a'')])) = Success
   \<and> useFormField_status object_prototype (ascii ''a'') (Some (run [] None [])) = Validating
   \<and> useFormField_status object_prototype (ascii ''a'') None = Validating
   \<and> useFormField_status object_prototype (ascii ''toString'') (Some (run [] None [])) = Error"
proof -
  have a: "object_prototype (ascii ''a'') = JUndefined"
    by (simp add: object_prototype_def object_prototype_names_def ascii_def)
  have b: "truthy (object_prototype (ascii ''toString''))"
    by (simp add: object_prototype_def object_prototype_names_def ascii_def truthy_def)
  have bad: "ascii ''bad'' \<noteq> []"
    by (simp add: ascii_def)
  note inherited = status_of_field [THEN conjunct1]
  note otherwise = status_of_field [THEN conjunct2, THEN conjunct2, THEN conjunct1]
  note ordinary = status_of_field [THEN conjunct2, THEN conjunct2, THEN conjunct2, rule_format]
  note err = ordinary [of object_prototype "ascii ''a''", OF a, THEN conjunct1]
  note suc = ordinary [of object_prototype "ascii ''a''", OF a, THEN conjunct2]
  have "useFormField_status object_prototype (ascii ''a'')
     (Some (run [] None [SetFieldError (ascii ''a'') (ascii ''bad''), TouchField (ascii ''a'')]))
     = Error"
    using bad
    by (simp add: err run_def useForm_def object_assign_def setFieldError_def touchField_def
        obj_set_def obj_get_def)
  moreover have "useFormField_status object_prototype (ascii ''a'')
       (Some (run [] None [TouchField (ascii ''a'')])) = Success"
    by (simp add: suc run_def useForm_def object_assign_def touchField_def obj_set_def
        obj_get_def)
  moreover have "useFormField_status object_prototype (ascii ''a'') (Some (run [] None []))
       = Validating"
    by (simp add: otherwise err suc run_def useForm_def object_assign_def obj_get_def)
  moreover have "useFormField_status object_prototype (ascii ''a'') None = Validating"
    by (simp add: otherwise err suc)
  moreover have "useFormField_status object_prototype (ascii ''toString'')
       (Some (run [] None [])) = Error"
    using b by (simp add: inherited run_def useForm_def object_assign_def obj_get_def)
  ultimately show ?thesis by simp
qed

text \<open>
  C10, as stated, fails: with the message \<open>''\<close> configured and a validator that returns
  \<open>false\<close>, the error is the default failure message, not the configured one.
\<close>

theorem empty_message_is_replaced:
  "validateRule (JNum (Fin 1))
     (no_rule\<lparr>message := Some [], validator := Some (\<lambda>v. Inr (JBool False))\<rparr>)
     = Inr (Fail default_failed_message)
   \<and> default_failed_message \<noteq> []"
  by (simp add: validateRule_def no_rule_def try_catch_def message_or_def
      default_failed_message_def)

text \<open>
  C10, amended. When the validator of a rule is called and returns (or resolves to) a value
  that is neither \<open>true\<close> nor a string, \<open>false\<close> for instance, \<open>validateRule\<close>
  returns a failure with the message of the rule when that is a string other than \<open>''\<close>,
  and with the default failure message when the rule has no message or the message
  \<open>''\<close>.
\<close>

theorem validator_result_neither_true_nor_string:
  assumes "validator rule = Some f" and "f v = Inr result"
    and "result \<noteq> JBool True" and "\<forall>str. result \<noteq> JStr str"
    and "\<not> (required rule = Some True \<and> v \<in> {JUndefined, JNull, JStr []})"
  shows "validateRule v rule = Inr (Fail (message_or rule default_failed_message))
       \<and> (\<forall>m. message rule = Some m \<and> m \<noteq> [] \<longrightarrow> validateRule v rule = Inr (Fail m))
       \<and> (message rule = None \<or> message rule = Some [] \<longrightarrow>
            validateRule v rule = Inr (Fail default_failed_message))"
  using assms
  by (cases result) (auto simp: validateRule_def is_absent_def message_or_def try_catch_def)

theorem validator_result_neither_true_nor_string_witness:
  "validateRule (JNum (Fin 1)) (no_rule\<lparr>validator := Some (\<lambda>v. Inr (JBool False))\<rparr>)
     = Inr (Fail default_failed_message)
   \<and> validateRule (JNum (Fin 1))
        (no_rule\<lparr>validator := Some (\<lambda>v. Inr (JBool False)), message := Some (ascii ''bad'')\<rparr>)
     = Inr (Fail (ascii ''bad''))"
  using validator_result_neither_true_nor_string
      [of "no_rule\<lparr>validator := Some (\<lambda>v. Inr (JBool False))\<rparr>" "\<lambda>v. Inr (JBool False)"
          "JNum (Fin 1)" "JBool False"]
    validator_result_neither_true_nor_string
      [of "no_rule\<lparr>validator := Some (\<lambda>v. Inr (JBool False)), message := Some (ascii ''bad'')\<rparr>"
          "\<lambda>v. Inr (JBool False)" "JNum (Fin 1)" "JBool False"]
  by (simp add: no_rule_def ascii_def message_or_def)

end
